theory Spec2Isabelle
  imports Main "HOL-Library.AList" "HOL-Library.Sublist"
begin

section \<open>JavaScript values\<close>

text \<open>
  The boundary layer works on untyped JSON bodies (\<open>unknown\<close> in the TypeScript source).
  A value is \<open>undefined\<close>, \<open>null\<close>, a boolean, a number, a string, an array or a plain
  object. Numbers are the integers (counts, offsets, totals, HTTP status codes); an
  object is its list of entries in insertion order, read with \<open>map_of\<close>. A well-formed
  object has pairwise distinct keys.
\<close>

datatype jsval =
    JUndefined
  | JNull
  | JBool bool
  | JNum int
  | JStr string
  | JArr "jsval list"
  | JObj "(string \<times> jsval) list"

text \<open>The only exception the modelled code can raise by itself.\<close>

datatype error = TypeError

text \<open>\<open>typeof v === "object"\<close>: true of \<open>null\<close>, arrays and objects.\<close>

definition typeof_object :: "jsval \<Rightarrow> bool" where
  "typeof_object v = (case v of JNull \<Rightarrow> True | JArr _ \<Rightarrow> True | JObj _ \<Rightarrow> True | _ \<Rightarrow> False)"

text \<open>\<open>Array.isArray(v)\<close>.\<close>

definition isArray :: "jsval \<Rightarrow> bool" where
  "isArray v = (case v of JArr _ \<Rightarrow> True | _ \<Rightarrow> False)"

text \<open>
  \<open>k in v\<close>, for the property names the code tests (\<open>data\<close>, \<open>attributes\<close>), none of
  which is an array index or a built-in property: the operator raises a TypeError
  when its right operand is not an object.
\<close>

definition has_property :: "string \<Rightarrow> jsval \<Rightarrow> error + bool" where
  "has_property k v =
     (case v of
        JObj kvs \<Rightarrow> Inr (map_of kvs k \<noteq> None)
      | JArr _ \<Rightarrow> Inr False
      | _ \<Rightarrow> Inl TypeError)"

text \<open>
  \<open>v.k\<close>, for the property names the code reads (\<open>data\<close>, \<open>meta\<close>, \<open>page\<close>, \<open>total\<close>,
  \<open>cursor\<close>, \<open>id\<close>, \<open>attributes\<close>, \<open>message\<close>, \<open>error\<close>): reading a property of
  \<open>undefined\<close> or \<open>null\<close> raises a TypeError, a missing property reads as
  \<open>undefined\<close>.
\<close>

definition js_get :: "jsval \<Rightarrow> string \<Rightarrow> error + jsval" where
  "js_get v k =
     (case v of
        JUndefined \<Rightarrow> Inl TypeError
      | JNull \<Rightarrow> Inl TypeError
      | JObj kvs \<Rightarrow> Inr (case map_of kvs k of Some x \<Rightarrow> x | None \<Rightarrow> JUndefined)
      | _ \<Rightarrow> Inr JUndefined)"

text \<open>\<open>v?.k\<close>: \<open>undefined\<close> when \<open>v\<close> is \<open>undefined\<close> or \<open>null\<close>.\<close>

definition opt_get :: "jsval \<Rightarrow> string \<Rightarrow> jsval" where
  "opt_get v k =
     (case v of
        JObj kvs \<Rightarrow> (case map_of kvs k of Some x \<Rightarrow> x | None \<Rightarrow> JUndefined)
      | _ \<Rightarrow> JUndefined)"

text \<open>\<open>a ?? b\<close>.\<close>

definition nullish_or :: "jsval \<Rightarrow> jsval \<Rightarrow> jsval" where
  "nullish_or a b = (if a = JUndefined \<or> a = JNull then b else a)"

text \<open>Truthiness, as tested by \<open>c ? x : y\<close>.\<close>

definition truthy :: "jsval \<Rightarrow> bool" where
  "truthy v =
     (case v of
        JUndefined \<Rightarrow> False
      | JNull \<Rightarrow> False
      | JBool b \<Rightarrow> b
      | JNum n \<Rightarrow> n \<noteq> 0
      | JStr s \<Rightarrow> s \<noteq> []
      | _ \<Rightarrow> True)"

subsection \<open>Numbers and values as strings\<close>

definition digit_char :: "nat \<Rightarrow> char" where
  "digit_char n = ''0123456789'' ! n"

fun show_nat :: "nat \<Rightarrow> string" where
  "show_nat n = (if n < 10 then [digit_char n] else show_nat (n div 10) @ [digit_char (n mod 10)])"

declare show_nat.simps [simp del]

definition show_int :: "int \<Rightarrow> string" where
  "show_int i = (if i < 0 then CHR ''-'' # show_nat (nat (- i)) else show_nat (nat i))"

text \<open>\<open>parts.join(sep)\<close>.\<close>

fun join :: "string \<Rightarrow> string list \<Rightarrow> string" where
  "join sep [] = []"
| "join sep [x] = x"
| "join sep (x # y # ys) = x @ sep @ join sep (y # ys)"

text \<open>
  What the program takes from the JavaScript runtime and this theory does not define:
  the text that \<open>JSON.stringify(v, null, 2)\<close> gives for a value (\<open>None\<close> where it
  answers \<open>undefined\<close>), whether the number that a text converts to is at least 500
  (the comparison \<open>s >= 500\<close> for a string \<open>s\<close>), and the text of a number above
  \<open>2^53\<close> in magnitude, where the digits printed are no longer those of the integer.
  Every function that needs one of them takes the record as its first argument, and
  every theorem holds for all of its values.
\<close>

record runtime =
  JSON_stringify :: "jsval \<Rightarrow> string option"
  text_at_least_500 :: "string \<Rightarrow> bool"
  large_number_text :: "int \<Rightarrow> string"

text \<open>
  \<open>String(v)\<close>, which is also the conversion made inside a template literal. An
  integer up to \<open>2^53\<close> in magnitude is written in decimal. An array is its elements
  joined by commas, with \<open>undefined\<close> and \<open>null\<close> elements left empty. A plain object
  is \<open>[object Object]\<close>, unless it has an own property named \<open>toString\<close>: the value
  of a property is never callable here, so neither \<open>toString\<close> nor \<open>valueOf\<close> gives
  a primitive and a TypeError is raised.
\<close>

fun js_String :: "runtime \<Rightarrow> jsval \<Rightarrow> error + string"
and join_elements :: "runtime \<Rightarrow> jsval list \<Rightarrow> error + string list"
where
  "js_String rt JUndefined = Inr ''undefined''"
| "js_String rt JNull = Inr ''null''"
| "js_String rt (JBool b) = Inr (if b then ''true'' else ''false'')"
| "js_String rt (JNum n) =
     Inr (if \<bar>n\<bar> \<le> 2 ^ 53 then show_int n else large_number_text rt n)"
| "js_String rt (JStr s) = Inr s"
| "js_String rt (JArr xs) =
     (case join_elements rt xs of Inl e \<Rightarrow> Inl e | Inr parts \<Rightarrow> Inr (join '','' parts))"
| "js_String rt (JObj kvs) =
     (if map_of kvs ''toString'' \<noteq> None then Inl TypeError else Inr ''[object Object]'')"
| "join_elements rt [] = Inr []"
| "join_elements rt (x # xs) =
     (case (if x = JUndefined \<or> x = JNull then Inr [] else js_String rt x) of
        Inl e \<Rightarrow> Inl e
      | Inr part \<Rightarrow>
          (case join_elements rt xs of Inl e \<Rightarrow> Inl e | Inr parts \<Rightarrow> Inr (part # parts)))"

section \<open>Response normalizer (services/api-client.ts)\<close>

text \<open>
  \<open>isJsonApiList\<close>: a chain of \<open>&&\<close>, evaluated left to right. The last conjunct applies
  \<open>in\<close> to the first element of \<open>data\<close> without testing that it is an object.
\<close>

definition isJsonApiList :: "jsval \<Rightarrow> error + bool" where
  "isJsonApiList body =
     (if \<not> (typeof_object body \<and> body \<noteq> JNull) then Inr False
      else case has_property ''data'' body of
        Inl e \<Rightarrow> Inl e
      | Inr False \<Rightarrow> Inr False
      | Inr True \<Rightarrow>
          (case js_get body ''data'' of
             Inl e \<Rightarrow> Inl e
           | Inr d \<Rightarrow>
               (case d of
                  JArr xs \<Rightarrow>
                    (case xs of
                       [] \<Rightarrow> Inr False
                     | x # _ \<Rightarrow> has_property ''attributes'' x)
                | _ \<Rightarrow> Inr False)))"

text \<open>
  \<open>isJsonApiSingle\<close>: here \<open>in\<close> is reached only after \<open>data\<close> has been tested to be a
  non-null object.
\<close>

definition isJsonApiSingle :: "jsval \<Rightarrow> error + bool" where
  "isJsonApiSingle body =
     (if \<not> (typeof_object body \<and> body \<noteq> JNull) then Inr False
      else case has_property ''data'' body of
        Inl e \<Rightarrow> Inl e
      | Inr False \<Rightarrow> Inr False
      | Inr True \<Rightarrow>
          (case js_get body ''data'' of
             Inl e \<Rightarrow> Inl e
           | Inr d \<Rightarrow>
               (if \<not> isArray d \<and> typeof_object d \<and> d \<noteq> JNull
                then has_property ''attributes'' d
                else Inr False)))"

text \<open>
  Own enumerable properties copied by an object spread \<open>...v\<close>: the entries of an
  object, the indexed elements of an array, the indexed characters of a string, and
  nothing for any other value.
\<close>

definition own_entries :: "jsval \<Rightarrow> (string \<times> jsval) list" where
  "own_entries v =
     (case v of
        JObj kvs \<Rightarrow> kvs
      | JArr xs \<Rightarrow> map (\<lambda>i. (show_nat i, xs ! i)) [0..<length xs]
      | JStr s \<Rightarrow> map (\<lambda>i. (show_nat i, JStr [s ! i])) [0..<length s]
      | _ \<Rightarrow> [])"

text \<open>
  Writing a property: an existing key keeps its place and takes the new value, a new
  key is appended.
\<close>

definition spread :: "(string \<times> jsval) list \<Rightarrow> jsval \<Rightarrow> (string \<times> jsval) list" where
  "spread acc v = fold (\<lambda>(k, x) obj. AList.update k x obj) (own_entries v) acc"

text \<open>\<open>flattenRecord\<close>: the object literal \<open>{ id: record.id, ...record.attributes }\<close>.\<close>

definition flattenRecord :: "jsval \<Rightarrow> error + jsval" where
  "flattenRecord record =
     (case js_get record ''id'' of
        Inl e \<Rightarrow> Inl e
      | Inr i \<Rightarrow>
          (case js_get record ''attributes'' of
             Inl e \<Rightarrow> Inl e
           | Inr a \<Rightarrow> Inr (JObj (spread [(''id'', i)] a))))"

text \<open>
  The object that \<open>flattenRecord\<close> builds for a record whose properties can be read
  (any value but \<open>undefined\<close> and \<open>null\<close>).
\<close>

definition flat_of :: "jsval \<Rightarrow> jsval" where
  "flat_of r = JObj (spread [(''id'', opt_get r ''id'')] (opt_get r ''attributes''))"

text \<open>\<open>xs.map(f)\<close> for a callback that may raise: the first exception ends the loop.\<close>

fun map_raise :: "('a \<Rightarrow> error + 'b) \<Rightarrow> 'a list \<Rightarrow> error + 'b list" where
  "map_raise f [] = Inr []"
| "map_raise f (x # xs) =
     (case f x of
        Inl e \<Rightarrow> Inl e
      | Inr y \<Rightarrow> (case map_raise f xs of Inl e \<Rightarrow> Inl e | Inr ys \<Rightarrow> Inr (y # ys)))"

text \<open>The test of the third branch of \<open>normalizeResponse\<close>, written inline there.\<close>

definition isEmptyList :: "jsval \<Rightarrow> error + bool" where
  "isEmptyList body =
     (if \<not> (typeof_object body \<and> body \<noteq> JNull) then Inr False
      else case has_property ''data'' body of
        Inl e \<Rightarrow> Inl e
      | Inr False \<Rightarrow> Inr False
      | Inr True \<Rightarrow>
          (case js_get body ''data'' of
             Inl e \<Rightarrow> Inl e
           | Inr d \<Rightarrow> (case d of JArr xs \<Rightarrow> Inr (length xs = 0) | _ \<Rightarrow> Inr False)))"

definition normalizeResponse :: "jsval \<Rightarrow> error + jsval" where
  "normalizeResponse body =
     (case isJsonApiList body of
        Inl e \<Rightarrow> Inl e
      | Inr True \<Rightarrow>
          (case js_get body ''data'' of
             Inr (JArr xs) \<Rightarrow>
               (case map_raise flattenRecord xs of
                  Inl e \<Rightarrow> Inl e
                | Inr items \<Rightarrow>
                    Inr (JObj
                      [(''items'', JArr items),
                       (''total'',
                          nullish_or (opt_get (opt_get (opt_get body ''meta'') ''page'') ''total'')
                            (JNum (int (length items)))),
                       (''cursor'', opt_get (opt_get (opt_get body ''meta'') ''page'') ''cursor'')]))
           | _ \<Rightarrow> Inl TypeError)
      | Inr False \<Rightarrow>
          (case isJsonApiSingle body of
             Inl e \<Rightarrow> Inl e
           | Inr True \<Rightarrow>
               (case js_get body ''data'' of Inl e \<Rightarrow> Inl e | Inr d \<Rightarrow> flattenRecord d)
           | Inr False \<Rightarrow>
               (case isEmptyList body of
                  Inl e \<Rightarrow> Inl e
                | Inr True \<Rightarrow> Inr (JObj [(''items'', JArr []), (''total'', JNum 0)])
                | Inr False \<Rightarrow> Inr body)))"

section \<open>Formatters (services/formatters.ts)\<close>

definition CHARACTER_LIMIT :: nat where
  "CHARACTER_LIMIT = 25000"

text \<open>The notice appended by \<open>truncateResponse\<close>, a string literal in the source.\<close>

definition truncation_notice :: string where
  "truncation_notice =
     [CHR 0x0A, CHR 0x0A] @ ''---'' @ [CHR 0x0A] @
     ''*Response truncated. Use `limit` and `offset` parameters or add filters to see more results.*''"

definition truncateResponse :: "string \<Rightarrow> string" where
  "truncateResponse text =
     (if length text \<le> CHARACTER_LIMIT then text
      else take CHARACTER_LIMIT text @ truncation_notice)"

record 'a PaginatedResponse =
  total_field :: int
  count :: int
  offset :: int
  items :: "'a list"
  has_more :: bool
  next_offset :: "int option"

text \<open>
  \<open>buildPaginatedResponse\<close>: \<open>next_offset\<close> is spread into the literal only under the
  same test that sets \<open>has_more\<close>; an absent field is \<open>None\<close>.
\<close>

definition buildPaginatedResponse :: "'a list \<Rightarrow> int \<Rightarrow> int \<Rightarrow> 'a PaginatedResponse" where
  "buildPaginatedResponse its tot off =
     \<lparr> total_field = tot,
       count = int (length its),
       offset = off,
       items = its,
       has_more = (tot > off + int (length its)),
       next_offset = (if tot > off + int (length its) then Some (off + int (length its)) else None) \<rparr>"

datatype ResponseFormat = MARKDOWN | JSON

text \<open>
  \<open>formatOutput\<close>: \<open>JSON.stringify\<close> answers \<open>undefined\<close> for the value \<open>undefined\<close>, and
  \<open>truncateResponse\<close> then raises a TypeError on reading \<open>text.length\<close>.
\<close>

definition formatOutput ::
  "runtime \<Rightarrow> jsval \<Rightarrow> (unit \<Rightarrow> string) \<Rightarrow> ResponseFormat \<Rightarrow> error + string" where
  "formatOutput rt data_value markdownFormatter responseFormat =
     (if responseFormat = MARKDOWN then Inr (truncateResponse (markdownFormatter ()))
      else case JSON_stringify rt data_value of
             None \<Rightarrow> Inl TypeError
           | Some text \<Rightarrow> Inr (truncateResponse text))"

text \<open>A renderer that ignores everything and answers a fixed text: \<open>() => s\<close>.\<close>

definition constant_renderer :: "string \<Rightarrow> unit \<Rightarrow> string" where
  "constant_renderer s u = s"

section \<open>Error handler (services/error-handler.ts)\<close>

text \<open>
  What a handler can catch: an instance of \<open>Error\<close> (an Axios error is one), given by
  the properties that can be read from it, or any other thrown value.
\<close>

datatype thrown =
    ErrorInstance "(string \<times> jsval) list"
  | Thrown jsval

text \<open>
  \<open>error.k\<close> for a caught object, for the property names the handler reads
  (\<open>isAxiosError\<close>, \<open>response\<close>, \<open>code\<close>, \<open>message\<close>). An \<open>Error\<close> without a message
  of its own inherits the empty one.
\<close>

definition get_prop :: "thrown \<Rightarrow> string \<Rightarrow> jsval" where
  "get_prop e k =
     (case e of
        ErrorInstance props \<Rightarrow>
          (case map_of props k of
             Some x \<Rightarrow> x
           | None \<Rightarrow> if k = ''message'' then JStr [] else JUndefined)
      | Thrown v \<Rightarrow> opt_get v k)"

text \<open>
  \<open>axios.isAxiosError(error)\<close>: the value is a non-null object and its property
  \<open>isAxiosError\<close> is \<open>true\<close>. It is a test of the property, not of the class.
\<close>

definition isAxiosError :: "thrown \<Rightarrow> bool" where
  "isAxiosError e =
     ((case e of ErrorInstance props \<Rightarrow> True | Thrown v \<Rightarrow> typeof_object v \<and> v \<noteq> JNull)
      \<and> get_prop e ''isAxiosError'' = JBool True)"

text \<open>
  The errors as Axios builds them, \<open>new AxiosError(message, code, config, request,
  response)\<close>, with a response of a status and a body, and a plain \<open>new Error(message)\<close>.
\<close>

definition axios_response :: "int \<Rightarrow> jsval \<Rightarrow> jsval" where
  "axios_response st d = JObj [(''status'', JNum st), (''data'', d)]"

definition AxiosError :: "string \<Rightarrow> jsval \<Rightarrow> jsval \<Rightarrow> thrown" where
  "AxiosError msg code response =
     ErrorInstance
       [(''message'', JStr msg), (''code'', code), (''response'', response),
        (''isAxiosError'', JBool True)]"

definition plain_Error :: "string \<Rightarrow> thrown" where
  "plain_Error msg = ErrorInstance [(''message'', JStr msg)]"

text \<open>The constant \<open>message\<close> of \<open>handleApiError\<close>, read from the response body.\<close>

definition response_message :: "jsval \<Rightarrow> error + jsval" where
  "response_message d =
     (if typeof_object d \<and> d \<noteq> JNull then
        (case js_get d ''message'' of
           Inl e \<Rightarrow> Inl e
         | Inr m \<Rightarrow>
             if m \<noteq> JUndefined \<and> m \<noteq> JNull then Inr m
             else (case js_get d ''error'' of
                     Inl e \<Rightarrow> Inl e
                   | Inr m' \<Rightarrow> Inr (nullish_or m' (JStr []))))
      else Inr (JStr []))"

text \<open>\<open>message ? String(message) : fallback\<close>.\<close>

definition optional_String :: "runtime \<Rightarrow> jsval \<Rightarrow> string \<Rightarrow> error + string" where
  "optional_String rt m fallback = (if truthy m then js_String rt m else Inr fallback)"

text \<open>
  \<open>status >= 500\<close>: a number is compared as it is; \<open>undefined\<close> is not a number and
  \<open>null\<close> and the booleans are 0 or 1; a string is converted to a number, and an array
  or an object first to a string, which may raise.
\<close>

definition at_least_500 :: "runtime \<Rightarrow> jsval \<Rightarrow> error + bool" where
  "at_least_500 rt status_value =
     (case status_value of
        JNum n \<Rightarrow> Inr (500 \<le> n)
      | JUndefined \<Rightarrow> Inr False
      | JNull \<Rightarrow> Inr False
      | JBool b \<Rightarrow> Inr False
      | JStr s \<Rightarrow> Inr (text_at_least_500 rt s)
      | _ \<Rightarrow>
          (case js_String rt status_value of
             Inl e \<Rightarrow> Inl e
           | Inr s \<Rightarrow> Inr (text_at_least_500 rt s)))"

text \<open>
  The \<open>switch (status)\<close> of \<open>handleApiError\<close> with its \<open>default\<close> branch. The cases
  compare with \<open>===\<close>, so only the number itself matches.
\<close>

definition response_text :: "runtime \<Rightarrow> jsval \<Rightarrow> jsval \<Rightarrow> error + string" where
  "response_text rt status_value message =
     (if status_value = JNum 400 then
        (case optional_String rt message ''Check your parameters and try again.'' of
           Inl e \<Rightarrow> Inl e
         | Inr t \<Rightarrow> Inr (''Error: Bad request. '' @ t))
      else if status_value = JNum 401 then
        Inr ''Error: Authentication failed. Check your CHORUS_API_KEY environment variable. Generate a token from Chorus Personal Settings.''
      else if status_value = JNum 403 then
        Inr ''Error: Access denied. Your API key may lack permissions for this resource, or the recording is marked as private.''
      else if status_value = JNum 404 then
        Inr ''Error: Resource not found. Verify the ID is correct and that you have access to this resource.''
      else if status_value = JNum 429 then
        Inr ''Error: Rate limit exceeded. Wait a moment before making more requests.''
      else
        (case at_least_500 rt status_value of
           Inl e \<Rightarrow> Inl e
         | Inr True \<Rightarrow>
             (case js_String rt status_value of
                Inl e \<Rightarrow> Inl e
              | Inr s \<Rightarrow> Inr (''Error: Chorus API server error ('' @ s @ ''). Try again later.''))
         | Inr False \<Rightarrow>
             (case js_String rt status_value of
                Inl e \<Rightarrow> Inl e
              | Inr s \<Rightarrow>
                  (case optional_String rt message [] of
                     Inl e \<Rightarrow> Inl e
                   | Inr t \<Rightarrow>
                       Inr (''Error: API request failed with status '' @ s @ ''. '' @ t)))))"

text \<open>
  The last \<open>return\<close>: \<open>error instanceof Error ? error.message : String(error)\<close>,
  inside a template literal.
\<close>

definition unexpected_text :: "runtime \<Rightarrow> thrown \<Rightarrow> error + string" where
  "unexpected_text rt e =
     (case (case e of
              ErrorInstance props \<Rightarrow> js_String rt (get_prop e ''message'')
            | Thrown v \<Rightarrow> js_String rt v) of
        Inl x \<Rightarrow> Inl x
      | Inr t \<Rightarrow> Inr (''Error: Unexpected error occurred: '' @ t))"

definition handleApiError :: "runtime \<Rightarrow> thrown \<Rightarrow> error + string" where
  "handleApiError rt e =
     (if isAxiosError e then
        (if truthy (get_prop e ''response'') then
           (case response_message (opt_get (get_prop e ''response'') ''data'') of
              Inl x \<Rightarrow> Inl x
            | Inr message \<Rightarrow>
                response_text rt (opt_get (get_prop e ''response'') ''status'') message)
         else if get_prop e ''code'' = JStr ''ECONNABORTED'' then
           Inr ''Error: Request timed out. The Chorus API did not respond within 30 seconds. Try again.''
         else if get_prop e ''code'' = JStr ''ECONNREFUSED'' then
           Inr ''Error: Could not connect to the Chorus API. Check your network connection.''
         else unexpected_text rt e)
      else unexpected_text rt e)"

text \<open>A text is a single line when it holds no line feed.\<close>

definition single_line :: "string \<Rightarrow> bool" where
  "single_line s = (CHR 0x0A \<notin> set s)"

definition returns_single_line :: "error + string \<Rightarrow> bool" where
  "returns_single_line res = (case res of Inl e \<Rightarrow> False | Inr s \<Rightarrow> single_line s)"

text \<open>
  The values that \<open>handleApiError\<close> may convert to a string and copy into its answer:
  the status and the upstream message of a response, and otherwise the message of the
  error or the thrown value itself.
\<close>

definition copied_values :: "thrown \<Rightarrow> jsval list" where
  "copied_values e =
     (if isAxiosError e \<and> truthy (get_prop e ''response'') then
        [opt_get (get_prop e ''response'') ''status'',
         (case response_message (opt_get (get_prop e ''response'') ''data'') of
            Inl x \<Rightarrow> JUndefined
          | Inr message \<Rightarrow> message)]
      else [case e of ErrorInstance props \<Rightarrow> get_prop e ''message'' | Thrown v \<Rightarrow> v])"

section \<open>Properties of the pagination window\<close>

text \<open>
  Claim C2. For every item list, total and offset, the window built by
  \<open>buildPaginatedResponse\<close> has \<open>count\<close> equal to the number of items, \<open>has_more\<close>
  true exactly when \<open>total > offset + count\<close>, and \<open>next_offset\<close> present exactly
  when \<open>has_more\<close> is true, in which case it is \<open>offset + count\<close>. The total, the
  offset and the items are carried into the window as given.
\<close>

theorem buildPaginatedResponse_window:
  "count (buildPaginatedResponse its tot off) = int (length its)
   \<and> has_more (buildPaginatedResponse its tot off)
       = (tot > off + count (buildPaginatedResponse its tot off))
   \<and> (next_offset (buildPaginatedResponse its tot off) \<noteq> None)
       = has_more (buildPaginatedResponse its tot off)
   \<and> next_offset (buildPaginatedResponse its tot off)
       = (if has_more (buildPaginatedResponse its tot off)
          then Some (off + count (buildPaginatedResponse its tot off)) else None)
   \<and> total_field (buildPaginatedResponse its tot off) = tot
   \<and> offset (buildPaginatedResponse its tot off) = off
   \<and> items (buildPaginatedResponse its tot off) = its"
  by (simp add: buildPaginatedResponse_def)

section \<open>Properties of truncation\<close>

lemma length_truncation_notice: "length truncation_notice = 99"
  by (simp add: truncation_notice_def)

lemma truncateResponse_short: "length text \<le> CHARACTER_LIMIT \<Longrightarrow> truncateResponse text = text"
  by (simp add: truncateResponse_def)

lemma truncateResponse_long:
  "CHARACTER_LIMIT < length text \<Longrightarrow>
     truncateResponse text = take CHARACTER_LIMIT text @ truncation_notice"
  by (simp add: truncateResponse_def)

lemma length_truncateResponse_long:
  "CHARACTER_LIMIT < length text \<Longrightarrow>
     length (truncateResponse text) = CHARACTER_LIMIT + length truncation_notice"
  by (simp add: truncateResponse_long)

lemma length_truncateResponse_le:
  "length (truncateResponse text) \<le> CHARACTER_LIMIT + length truncation_notice"
  by (cases "length text \<le> CHARACTER_LIMIT")
     (simp_all add: truncateResponse_short length_truncateResponse_long)

lemma notice_mentions:
  "sublist ''`limit`'' truncation_notice"
  "sublist ''`offset`'' truncation_notice"
  "sublist ''filters'' truncation_notice"
proof -
  have "truncation_notice =
      ([CHR 0x0A, CHR 0x0A] @ ''---'' @ [CHR 0x0A] @ ''*Response truncated. Use '') @ ''`limit`'' @
      '' and `offset` parameters or add filters to see more results.*''"
    by (simp add: truncation_notice_def)
  then show "sublist ''`limit`'' truncation_notice"
    by (metis sublist_appendI)
  have "truncation_notice =
      ([CHR 0x0A, CHR 0x0A] @ ''---'' @ [CHR 0x0A] @ ''*Response truncated. Use `limit` and '') @ ''`offset`'' @
      '' parameters or add filters to see more results.*''"
    by (simp add: truncation_notice_def)
  then show "sublist ''`offset`'' truncation_notice"
    by (metis sublist_appendI)
  have "truncation_notice =
      ([CHR 0x0A, CHR 0x0A] @ ''---'' @ [CHR 0x0A] @ ''*Response truncated. Use `limit` and `offset` parameters or add '') @ ''filters'' @
      '' to see more results.*''"
    by (simp add: truncation_notice_def)
  then show "sublist ''filters'' truncation_notice"
    by (metis sublist_appendI)
qed

lemma suffix_truncateResponse_long:
  "CHARACTER_LIMIT < length text \<Longrightarrow> suffix truncation_notice (truncateResponse text)"
  by (simp add: truncateResponse_long suffixI)

text \<open>
  Claim C5. A text longer than the budget of 25000 characters is cut to the budget and
  the notice is appended: the result is no longer than the budget plus the length of
  the notice and ends with the notice, which names \<open>limit\<close>, \<open>offset\<close> and filters.
  A text within the budget is returned unchanged.
\<close>

theorem truncateResponse_budget:
  "(CHARACTER_LIMIT < length long \<longrightarrow>
      length (truncateResponse long) \<le> CHARACTER_LIMIT + length truncation_notice
      \<and> suffix truncation_notice (truncateResponse long))
   \<and> (length short \<le> CHARACTER_LIMIT \<longrightarrow> truncateResponse short = short)
   \<and> CHARACTER_LIMIT = 25000
   \<and> sublist ''`limit`'' truncation_notice
   \<and> sublist ''`offset`'' truncation_notice
   \<and> sublist ''filters'' truncation_notice"
proof -
  have "CHARACTER_LIMIT = 25000"
    by (simp add: CHARACTER_LIMIT_def)
  then show ?thesis
    using notice_mentions length_truncateResponse_le suffix_truncateResponse_long
      truncateResponse_short
    by blast
qed

text \<open>The two cases at a text 1000 characters over the budget and at a short text.\<close>

theorem truncateResponse_budget_witness:
  "CHARACTER_LIMIT < length (replicate 26000 (CHR ''x''))
   \<and> length (truncateResponse (replicate 26000 (CHR ''x''))) \<le> CHARACTER_LIMIT + length truncation_notice
   \<and> suffix truncation_notice (truncateResponse (replicate 26000 (CHR ''x'')))
   \<and> length ''Short text'' \<le> CHARACTER_LIMIT
   \<and> truncateResponse ''Short text'' = ''Short text''"
  using truncateResponse_budget [of "replicate 26000 (CHR ''x'')" "''Short text''"]
  by (simp add: CHARACTER_LIMIT_def)


section \<open>Properties of the output formatter\<close>

lemma formatOutput_markdown:
  "formatOutput rt d render MARKDOWN = Inr (truncateResponse (render ()))"
  by (simp add: formatOutput_def)

lemma formatOutput_json:
  "formatOutput rt d render JSON =
     (case JSON_stringify rt d of None \<Rightarrow> Inl TypeError | Some t \<Rightarrow> Inr (truncateResponse t))"
  by (simp add: formatOutput_def)

text \<open>
  Claim C6, as stated, fails: a narrative rendering of 26000 characters is formatted
  to 25099 characters, more than the budget of 25000.
\<close>

theorem formatOutput_exceeds_budget:
  "\<forall>rt. formatOutput rt JNull (constant_renderer (replicate 26000 (CHR ''x''))) MARKDOWN
           = Inr (replicate 25000 (CHR ''x'') @ truncation_notice)
         \<and> length (replicate 25000 (CHR ''x'') @ truncation_notice) = 25099
         \<and> CHARACTER_LIMIT = 25000"
  by (simp add: formatOutput_markdown constant_renderer_def truncateResponse_def
        CHARACTER_LIMIT_def length_truncation_notice)

lemma truncateResponse_cases:
  "length t \<le> CHARACTER_LIMIT \<and> truncateResponse t = t
   \<or> CHARACTER_LIMIT < length t \<and> truncateResponse t = take CHARACTER_LIMIT t @ truncation_notice"
  by (cases "length t \<le> CHARACTER_LIMIT")
     (simp_all add: truncateResponse_short truncateResponse_long)

text \<open>
  Claim C6, amended. For every value, renderer and mode, a formatted output is no
  longer than the budget plus the length of the truncation notice: it is the rendering
  itself (the renderer's text in narrative mode, the JSON text in structured mode) when
  that is within the budget, and otherwise the first 25000 characters of the rendering
  followed by the notice. The formatter raises only in structured mode, on a value that
  has no JSON text.
\<close>

theorem formatOutput_bounded:
  "(case formatOutput rt d render fmt of
      Inr text \<Rightarrow>
        length text \<le> CHARACTER_LIMIT + length truncation_notice
        \<and> (\<exists>t. (fmt = MARKDOWN \<and> t = render () \<or> fmt = JSON \<and> JSON_stringify rt d = Some t)
               \<and> (length t \<le> CHARACTER_LIMIT \<and> text = t
                  \<or> CHARACTER_LIMIT < length t
                    \<and> text = take CHARACTER_LIMIT t @ truncation_notice))
    | Inl e \<Rightarrow> fmt = JSON \<and> JSON_stringify rt d = None)"
proof (cases fmt)
  case MARKDOWN
  then show ?thesis
    using length_truncateResponse_le [of "render ()"] truncateResponse_cases [of "render ()"]
    by (simp add: formatOutput_markdown)
next
  case JSON
  show ?thesis
  proof (cases "JSON_stringify rt d")
    case None
    then show ?thesis
      using JSON by (simp add: formatOutput_json)
  next
    case (Some t)
    then show ?thesis
      using JSON length_truncateResponse_le [of t] truncateResponse_cases [of t]
      by (simp add: formatOutput_json)
  qed
qed

text \<open>
  Claim C10. In narrative mode the formatted output does not depend on the data
  argument: for any two data values and the same renderer the results are equal, and
  both are the truncation of the renderer's text.
\<close>

theorem formatOutput_markdown_independent:
  "formatOutput rt d1 render MARKDOWN = formatOutput rt d2 render MARKDOWN
   \<and> formatOutput rt d1 render MARKDOWN = Inr (truncateResponse (render ()))
   \<and> formatOutput rt d2 render MARKDOWN = Inr (truncateResponse (render ()))"
  by (simp add: formatOutput_markdown)

text \<open>
  In structured mode a JSON text within the budget is returned as \<open>JSON.stringify\<close>
  gave it.
\<close>

lemma formatOutput_json_within_budget:
  "JSON_stringify rt d = Some t \<Longrightarrow> length t \<le> CHARACTER_LIMIT \<Longrightarrow>
     formatOutput rt d render JSON = Inr t"
  by (simp add: formatOutput_json truncateResponse_short)

section \<open>Properties of the response normalizer\<close>

lemma map_of_fold_update:
  "distinct (map fst kvs) \<Longrightarrow>
     map_of (fold (\<lambda>(k, x) obj. AList.update k x obj) kvs acc) = map_of acc ++ map_of kvs"
proof (induction kvs arbitrary: acc)
  case Nil
  then show ?case by simp
next
  case (Cons kv kvs)
  obtain k x where kv: "kv = (k, x)" by (cases kv)
  from Cons.prems kv have fresh: "k \<notin> dom (map_of kvs)" and dist: "distinct (map fst kvs)"
    by (auto simp: dom_map_of_conv_image_fst)
  have "map_of (fold (\<lambda>(k, x) obj. AList.update k x obj) (kv # kvs) acc)
          = map_of (AList.update k x acc) ++ map_of kvs"
    unfolding kv using Cons.IH [OF dist, of "AList.update k x acc"] by simp
  also have "\<dots> = (map_of acc)(k \<mapsto> x) ++ map_of kvs"
    by (simp only: update_conv')
  also have "\<dots> = (map_of acc ++ map_of kvs)(k \<mapsto> x)"
    using fresh by (rule map_add_upd_left)
  also have "\<dots> = map_of acc ++ map_of (kv # kvs)"
    unfolding kv by simp
  finally show ?case .
qed

lemma distinct_fold_update:
  "distinct (map fst acc) \<Longrightarrow>
     distinct (map fst (fold (\<lambda>(k, x) obj. AList.update k x obj) kvs acc))"
  by (induction kvs arbitrary: acc) (auto simp: distinct_update)

lemma flattenRecord_object:
  assumes "map_of props ''attributes'' = Some (JObj attrs)"
  shows "flattenRecord (JObj props) =
           Inr (JObj (spread [(''id'', opt_get (JObj props) ''id'')] (JObj attrs)))"
  using assms by (simp add: flattenRecord_def js_get_def opt_get_def)

lemma map_of_spread_object:
  "distinct (map fst attrs) \<Longrightarrow>
     map_of (spread [(''id'', i)] (JObj attrs)) = [''id'' \<mapsto> i] ++ map_of attrs"
  by (simp add: spread_def own_entries_def map_of_fold_update)

lemma distinct_spread: "distinct (map fst (spread [(''id'', i)] v))"
  by (simp add: spread_def distinct_fold_update)

lemma opt_get_spread_id:
  "distinct (map fst attrs) \<Longrightarrow>
     opt_get (JObj (spread [(''id'', i)] (JObj attrs))) ''id''
       = (case map_of attrs ''id'' of Some v \<Rightarrow> v | None \<Rightarrow> i)"
  by (simp add: opt_get_def map_of_spread_object map_add_def split: option.splits)

text \<open>
  Claim C1. The claim: the flattened record's \<open>id\<close> is the record's own identifier,
  also when the attribute bag has a field named \<open>id\<close>. The code breaks it: the object
  literal writes \<open>id\<close> first and spreads the attribute bag after it, so the record
  \<open>r1\<close> with the attribute \<open>id = a1\<close> is flattened to a record whose \<open>id\<close> is \<open>a1\<close>.
\<close>

theorem flattenRecord_attribute_id_wins:
  "flattenRecord
     (JObj [(''id'', JStr ''r1''), (''type'', JStr ''call''),
            (''attributes'', JObj [(''id'', JStr ''a1''), (''name'', JStr ''n'')])])
     = Inr (JObj [(''id'', JStr ''a1''), (''name'', JStr ''n'')])
   \<and> js_get (JObj [(''id'', JStr ''a1''), (''name'', JStr ''n'')]) ''id'' = Inr (JStr ''a1'')
   \<and> js_get
     (JObj [(''id'', JStr ''r1''), (''type'', JStr ''call''),
            (''attributes'', JObj [(''id'', JStr ''a1''), (''name'', JStr ''n'')])]) ''id''
     = Inr (JStr ''r1'')
   \<and> JStr ''a1'' \<noteq> JStr ''r1''"
  by (simp add: flattenRecord_def js_get_def spread_def own_entries_def)

text \<open>
  Where the attribute bag has no field named \<open>id\<close>, the flattened record has the
  record's identifier and the fields of the bag.
\<close>

lemma flattenRecord_keeps_id:
  assumes "js_get record ''attributes'' = Inr (JObj attrs)"
    and "distinct (map fst attrs)"
    and "map_of attrs ''id'' = None"
  shows "\<exists>flat. flattenRecord record = Inr (JObj flat)
           \<and> distinct (map fst flat)
           \<and> opt_get (JObj flat) ''id'' = opt_get record ''id''
           \<and> (\<forall>k. k \<noteq> ''id'' \<longrightarrow> map_of flat k = map_of attrs k)"
proof -
  from assms(1) obtain props where shape: "record = JObj props"
    and attrs: "map_of props ''attributes'' = Some (JObj attrs)"
    by (cases "record") (auto simp: js_get_def split: option.splits)
  show ?thesis
    unfolding shape flattenRecord_object [OF attrs]
    using assms(2,3)
    by (simp add: distinct_spread map_of_spread_object opt_get_spread_id map_add_def
          split: option.splits)
qed

lemma normalizeResponse_without_data:
  "has_property ''data'' body \<noteq> Inr True \<Longrightarrow> normalizeResponse body = Inr body"
  by (cases body)
     (simp_all add: normalizeResponse_def isJsonApiList_def isJsonApiSingle_def
        isEmptyList_def typeof_object_def has_property_def)

lemma normalizeResponse_malformed_data:
  assumes "map_of body ''data'' = Some d"
    and "\<not> isArray d"
    and "has_property ''attributes'' d \<noteq> Inr True"
  shows "normalizeResponse (JObj body) = Inr (JObj body)"
  using assms
  by (cases d)
     (simp_all add: normalizeResponse_def isJsonApiList_def isJsonApiSingle_def
        isEmptyList_def typeof_object_def has_property_def js_get_def isArray_def)

text \<open>
  Claim C7. A value with no \<open>data\<close> field, and an envelope whose \<open>data\<close> is neither an
  array nor an object with an attribute bag, are returned unchanged (the two lemmas
  above). The claim fails on an envelope that matches none of the three shapes because
  the first element of \<open>data\<close> is not an object: \<open>isJsonApiList\<close> applies \<open>in\<close> to it and a
  TypeError is raised, where \<open>isJsonApiSingle\<close> tests for a non-null object first.
\<close>

theorem normalizeResponse_raises_TypeError:
  "isJsonApiList (JObj [(''data'', JArr [JNum 5])]) = Inl TypeError
   \<and> normalizeResponse (JObj [(''data'', JArr [JNum 5])]) = Inl TypeError"
  by (simp add: normalizeResponse_def isJsonApiList_def typeof_object_def has_property_def
        js_get_def)

lemma map_raise_Inr:
  "(\<And>x. x \<in> set xs \<Longrightarrow> f x = Inr (g x)) \<Longrightarrow> map_raise f xs = Inr (map g xs)"
  by (induction xs) simp_all

lemma flattenRecord_flat_of:
  assumes "r = JObj props" and "map_of props ''attributes'' = Some (JObj attrs)"
  shows "flattenRecord r = Inr (flat_of r)"
  using assms by (simp add: flattenRecord_object flat_of_def opt_get_def)

lemma opt_get_flat_of_id:
  assumes "r = JObj props" and "map_of props ''attributes'' = Some (JObj attrs)"
    and "distinct (map fst attrs)"
  shows "opt_get (flat_of r) ''id''
           = (if has_property ''id'' (opt_get r ''attributes'') = Inr True
              then opt_get (opt_get r ''attributes'') ''id''
              else opt_get r ''id'')"
proof -
  have "opt_get r ''attributes'' = JObj attrs"
    using assms(1,2) by (simp add: opt_get_def)
  then show ?thesis
    using assms(3)
    by (simp add: flat_of_def opt_get_spread_id has_property_def)
       (auto simp: opt_get_def split: option.splits)
qed

lemma isJsonApiList_collection:
  assumes "map_of body ''data'' = Some (JArr (r # rs))"
    and "r = JObj props" and "map_of props ''attributes'' = Some a"
  shows "isJsonApiList (JObj body) = Inr True"
  using assms
  by (simp add: isJsonApiList_def typeof_object_def has_property_def js_get_def)

text \<open>
  Claim C4. The claim: each canonical record of a normalized collection contains the
  source record's identifier. The code breaks it, by the spread order of
  \<open>flattenRecord\<close>: for a record whose attribute bag has a field named \<open>id\<close>, the
  canonical record carries the attribute, not the identifier. The number of records,
  their order, the total and the cursor are as the claim says (the lemma below).
\<close>

theorem normalizeResponse_collection_attribute_id:
  "normalizeResponse
     (JObj [(''data'', JArr [JObj [(''id'', JStr ''r1''), (''type'', JStr ''call''),
                                   (''attributes'', JObj [(''id'', JStr ''a1'')])]])])
     = Inr (JObj [(''items'', JArr [JObj [(''id'', JStr ''a1'')]]),
                  (''total'', JNum 1), (''cursor'', JUndefined)])
   \<and> js_get (JObj [(''id'', JStr ''a1'')]) ''id'' = Inr (JStr ''a1'')
   \<and> js_get (JObj [(''id'', JStr ''r1''), (''type'', JStr ''call''),
                    (''attributes'', JObj [(''id'', JStr ''a1'')])]) ''id'' = Inr (JStr ''r1'')
   \<and> JStr ''a1'' \<noteq> JStr ''r1''"
  by (simp add: normalizeResponse_def isJsonApiList_def typeof_object_def has_property_def
        js_get_def flattenRecord_def spread_def own_entries_def opt_get_def nullish_or_def)

text \<open>
  For every collection envelope whose \<open>data\<close> is a non-empty array of N records, each
  an object carrying an attribute bag, the result is a collection of exactly N
  canonical records in input order, each the flattening of the record at the same
  position, with the source record's identifier where the bag has no field named
  \<open>id\<close>. The \<open>total\<close> is the nested \<open>meta.page.total\<close> when that is present and not
  \<open>null\<close>, and N otherwise; the \<open>cursor\<close> is \<open>meta.page.cursor\<close> as it is, \<open>undefined\<close>
  when absent.
\<close>

lemma normalizeResponse_collection_shape:
  assumes "map_of body ''data'' = Some (JArr records)"
    and "records \<noteq> []"
    and "\<forall>r \<in> set records. \<exists>props attrs.
           r = JObj props \<and> map_of props ''attributes'' = Some (JObj attrs)
           \<and> distinct (map fst attrs)"
  shows "\<exists>its tot cur.
           normalizeResponse (JObj body)
             = Inr (JObj [(''items'', JArr its), (''total'', tot), (''cursor'', cur)])
           \<and> length its = length records
           \<and> (\<forall>i < length records.
                 flattenRecord (records ! i) = Inr (its ! i)
                 \<and> (has_property ''id'' (opt_get (records ! i) ''attributes'') \<noteq> Inr True \<longrightarrow>
                    opt_get (its ! i) ''id'' = opt_get (records ! i) ''id''))
           \<and> tot = (if opt_get (opt_get (opt_get (JObj body) ''meta'') ''page'') ''total''
                        \<in> {JUndefined, JNull}
                     then JNum (int (length records))
                     else opt_get (opt_get (opt_get (JObj body) ''meta'') ''page'') ''total'')
           \<and> cur = opt_get (opt_get (opt_get (JObj body) ''meta'') ''page'') ''cursor''"
proof -
  from assms(2) obtain r rs where records: "records = r # rs"
    by (cases records) auto
  from assms(3) records obtain props attrs where
    "r = JObj props" "map_of props ''attributes'' = Some (JObj attrs)"
    by auto
  with assms(1) records have is_list: "isJsonApiList (JObj body) = Inr True"
    by (simp add: isJsonApiList_collection)
  have flat: "flattenRecord x = Inr (flat_of x)" if "x \<in> set records" for x
    using assms(3) that flattenRecord_flat_of by blast
  then have mapped: "map_raise flattenRecord records = Inr (map flat_of records)"
    by (rule map_raise_Inr)
  have ids: "opt_get (flat_of x) ''id'' = opt_get x ''id''"
    if "x \<in> set records" and "has_property ''id'' (opt_get x ''attributes'') \<noteq> Inr True" for x
    using assms(3) that opt_get_flat_of_id [of x] by fastforce
  have result: "normalizeResponse (JObj body)
      = Inr (JObj [(''items'', JArr (map flat_of records)),
                   (''total'', nullish_or
                      (opt_get (opt_get (opt_get (JObj body) ''meta'') ''page'') ''total'')
                      (JNum (int (length records)))),
                   (''cursor'', opt_get (opt_get (opt_get (JObj body) ''meta'') ''page'') ''cursor'')])"
    using assms(1) is_list mapped by (simp add: normalizeResponse_def js_get_def)
  show ?thesis
    unfolding result
    using flat ids by (auto simp: nullish_or_def)
qed

section \<open>Properties of the error handler\<close>

lemma response_message_total: "\<exists>m. response_message d = Inr m"
  by (cases d) (simp_all add: response_message_def typeof_object_def js_get_def)

lemma at_least_500_returns:
  "js_String rt v = Inr s \<Longrightarrow> \<exists>b. at_least_500 rt v = Inr b"
  by (cases v) (auto simp: at_least_500_def)

lemma optional_String_returns:
  "(\<exists>s. js_String rt m = Inr s) \<Longrightarrow> \<exists>t. optional_String rt m fallback = Inr t"
  by (auto simp: optional_String_def)

lemma response_text_prefix:
  assumes "response_text rt st m = Inr text"
  shows "\<exists>rest. text = ''Error: '' @ rest"
  using assms unfolding response_text_def
  by (auto split: if_splits sum.splits bool.splits)

lemma response_text_returns:
  assumes "js_String rt st = Inr s" and "js_String rt m = Inr s'"
  shows "\<exists>t. response_text rt st m = Inr t"
proof -
  obtain b where b: "at_least_500 rt st = Inr b"
    using at_least_500_returns [OF assms(1)] by blast
  obtain t1 where t1: "optional_String rt m ''Check your parameters and try again.'' = Inr t1"
    using optional_String_returns assms(2) by blast
  obtain t2 where t2: "optional_String rt m [] = Inr t2"
    using optional_String_returns assms(2) by blast
  show ?thesis
    unfolding response_text_def using assms(1) b t1 t2
    by (cases b) simp_all
qed

lemma unexpected_text_prefix:
  "unexpected_text rt e = Inr text \<Longrightarrow> \<exists>rest. text = ''Error: '' @ rest"
  unfolding unexpected_text_def by (auto split: sum.splits)

lemma handleApiError_cases:
  obtains
    (response) m where "isAxiosError e" and "truthy (get_prop e ''response'')"
      and "response_message (opt_get (get_prop e ''response'') ''data'') = Inr m"
      and "handleApiError rt e = response_text rt (opt_get (get_prop e ''response'') ''status'') m"
  | (timeout) "isAxiosError e" and "\<not> truthy (get_prop e ''response'')"
      and "get_prop e ''code'' = JStr ''ECONNABORTED''"
      and "handleApiError rt e =
        Inr ''Error: Request timed out. The Chorus API did not respond within 30 seconds. Try again.''"
  | (refused) "isAxiosError e" and "\<not> truthy (get_prop e ''response'')"
      and "get_prop e ''code'' = JStr ''ECONNREFUSED''"
      and "handleApiError rt e =
        Inr ''Error: Could not connect to the Chorus API. Check your network connection.''"
  | (unexpected) "\<not> (isAxiosError e \<and> truthy (get_prop e ''response''))"
      and "handleApiError rt e = unexpected_text rt e"
proof (cases "isAxiosError e \<and> truthy (get_prop e ''response'')")
  case True
  obtain m where m: "response_message (opt_get (get_prop e ''response'') ''data'') = Inr m"
    using response_message_total by blast
  with True have "handleApiError rt e = response_text rt (opt_get (get_prop e ''response'') ''status'') m"
    by (simp add: handleApiError_def)
  with True m show ?thesis
    using response by blast
next
  case False
  show ?thesis
  proof (cases "isAxiosError e")
    case notaxios: False
    then have "handleApiError rt e = unexpected_text rt e"
      by (simp add: handleApiError_def)
    with False show ?thesis using unexpected by blast
  next
    case axios: True
    with False have noresp: "\<not> truthy (get_prop e ''response'')" by simp
    consider "get_prop e ''code'' = JStr ''ECONNABORTED''"
      | "get_prop e ''code'' = JStr ''ECONNREFUSED''"
      | "get_prop e ''code'' \<noteq> JStr ''ECONNABORTED''" "get_prop e ''code'' \<noteq> JStr ''ECONNREFUSED''"
      by blast
    then show ?thesis
    proof cases
      case 1
      then show ?thesis
        using axios noresp timeout by (simp add: handleApiError_def)
    next
      case 2
      then show ?thesis
        using axios noresp refused by (simp add: handleApiError_def)
    next
      case 3
      then have "handleApiError rt e = unexpected_text rt e"
        using axios noresp by (simp add: handleApiError_def)
      with False show ?thesis using unexpected by blast
    qed
  qed
qed

lemma handleApiError_prefix:
  assumes "handleApiError rt e = Inr text"
  shows "\<exists>rest. text = ''Error: '' @ rest"
proof (cases rule: handleApiError_cases [of e rt])
  case (response m)
  then show ?thesis using assms response_text_prefix by simp
next
  case timeout
  then show ?thesis using assms by auto
next
  case refused
  then show ?thesis using assms by auto
next
  case unexpected
  then show ?thesis using assms unexpected_text_prefix by simp
qed


lemma unexpected_text_returns:
  assumes "\<forall>v \<in> set (copied_values e). \<exists>s. js_String rt v = Inr s"
    and "\<not> (isAxiosError e \<and> truthy (get_prop e ''response''))"
  shows "\<exists>t. unexpected_text rt e = Inr t"
  using assms by (cases e) (auto simp: copied_values_def unexpected_text_def)

lemma handleApiError_returns:
  assumes "\<forall>v \<in> set (copied_values e). \<exists>s. js_String rt v = Inr s"
  shows "\<exists>t. handleApiError rt e = Inr t"
proof (cases rule: handleApiError_cases [of e rt])
  case (response m)
  then have "copied_values e = [opt_get (get_prop e ''response'') ''status'', m]"
    by (simp add: copied_values_def)
  with assms obtain s s' where "js_String rt (opt_get (get_prop e ''response'') ''status'') = Inr s"
    and "js_String rt m = Inr s'"
    by auto
  then show ?thesis
    using response(4) response_text_returns by simp
next
  case timeout
  then show ?thesis by simp
next
  case refused
  then show ?thesis by simp
next
  case unexpected
  then show ?thesis
    using unexpected_text_returns [OF assms] by simp
qed

lemma single_line_digit_char: "n < 10 \<Longrightarrow> single_line [digit_char n]"
proof -
  assume "n < 10"
  then have "n \<in> {0, 1, 2, 3, 4, 5, 6, 7, 8, 9}" by auto
  then show ?thesis
    by (auto simp: digit_char_def single_line_def)
qed

lemma single_line_append: "single_line (a @ b) \<longleftrightarrow> single_line a \<and> single_line b"
  by (auto simp: single_line_def)

lemma single_line_show_nat: "single_line (show_nat n)"
proof (induction n rule: show_nat.induct)
  case (1 n)
  show ?case
  proof (cases "n < 10")
    case True
    then show ?thesis
      by (simp add: show_nat.simps [of n] single_line_digit_char)
  next
    case False
    moreover have "n mod 10 < 10" by simp
    ultimately show ?thesis
      using "1.IH" single_line_digit_char [of "n mod 10"]
      by (simp add: show_nat.simps [of n] single_line_append)
  qed
qed

lemma single_line_show_int: "single_line (show_int i)"
  using single_line_show_nat [of "nat i"] single_line_show_nat [of "nat (- i)"]
  by (simp add: show_int_def single_line_def)

lemma single_line_fixed:
  "single_line ''Error: Bad request. ''"
  "single_line ''Check your parameters and try again.''"
  "single_line ''Error: Authentication failed. Check your CHORUS_API_KEY environment variable. Generate a token from Chorus Personal Settings.''"
  "single_line ''Error: Access denied. Your API key may lack permissions for this resource, or the recording is marked as private.''"
  "single_line ''Error: Resource not found. Verify the ID is correct and that you have access to this resource.''"
  "single_line ''Error: Rate limit exceeded. Wait a moment before making more requests.''"
  "single_line ''Error: Chorus API server error (''"
  "single_line ''). Try again later.''"
  "single_line ''Error: API request failed with status ''"
  "single_line ''. ''"
  "single_line []"
  "single_line ''Error: Request timed out. The Chorus API did not respond within 30 seconds. Try again.''"
  "single_line ''Error: Could not connect to the Chorus API. Check your network connection.''"
  "single_line ''Error: Unexpected error occurred: ''"
  by (simp_all add: single_line_def)

lemma optional_String_single_line:
  assumes "optional_String rt m fallback = Inr t" and "single_line fallback"
    and "\<forall>s. js_String rt m = Inr s \<longrightarrow> single_line s"
  shows "single_line t"
  using assms by (auto simp: optional_String_def split: if_splits)

lemma response_text_single_line:
  assumes "response_text rt st m = Inr text"
    and st: "\<forall>s. js_String rt st = Inr s \<longrightarrow> single_line s"
    and m: "\<forall>s. js_String rt m = Inr s \<longrightarrow> single_line s"
  shows "single_line text"
proof -
  note opt = optional_String_single_line [OF _ _ m]
  consider (bad) t where "optional_String rt m ''Check your parameters and try again.'' = Inr t"
      "text = ''Error: Bad request. '' @ t"
    | (fixed) "text \<in> {
        ''Error: Authentication failed. Check your CHORUS_API_KEY environment variable. Generate a token from Chorus Personal Settings.'',
        ''Error: Access denied. Your API key may lack permissions for this resource, or the recording is marked as private.'',
        ''Error: Resource not found. Verify the ID is correct and that you have access to this resource.'',
        ''Error: Rate limit exceeded. Wait a moment before making more requests.''}"
    | (server) s where "js_String rt st = Inr s"
        "text = ''Error: Chorus API server error ('' @ s @ ''). Try again later.''"
    | (other) s t where "js_String rt st = Inr s" "optional_String rt m [] = Inr t"
        "text = ''Error: API request failed with status '' @ s @ ''. '' @ t"
    using assms(1) unfolding response_text_def
    by (auto split: if_splits sum.splits bool.splits)
  then show ?thesis
  proof cases
    case bad
    then show ?thesis
      using opt [of "''Check your parameters and try again.''" t] single_line_fixed(1,2)
      by (simp add: single_line_def)
  next
    case fixed
    then show ?thesis
      using single_line_fixed(3,4,5,6) by auto
  next
    case server
    then show ?thesis
      using st single_line_fixed(7,8) by (simp add: single_line_def)
  next
    case other
    then show ?thesis
      using st opt [of "[]" t] single_line_fixed(9,10,11)
      by (simp add: single_line_def)
  qed
qed

lemma unexpected_text_single_line:
  assumes "unexpected_text rt e = Inr text"
    and "\<not> (isAxiosError e \<and> truthy (get_prop e ''response''))"
    and "\<forall>v \<in> set (copied_values e). \<forall>s. js_String rt v = Inr s \<longrightarrow> single_line s"
  shows "single_line text"
proof -
  let ?v = "case e of ErrorInstance props \<Rightarrow> get_prop e ''message'' | Thrown v \<Rightarrow> v"
  have cv: "copied_values e = [?v]"
    using assms(2) by (simp add: copied_values_def)
  obtain t where t: "js_String rt ?v = Inr t" and shape: "text = ''Error: Unexpected error occurred: '' @ t"
    using assms(1) unfolding unexpected_text_def by (cases e) (auto split: sum.splits)
  have "single_line t"
    using assms(3) t unfolding cv by simp
  then show ?thesis
    unfolding shape using single_line_fixed(14) by (simp add: single_line_def)
qed

lemma handleApiError_single_line:
  assumes "handleApiError rt e = Inr text"
    and "\<forall>v \<in> set (copied_values e). \<forall>s. js_String rt v = Inr s \<longrightarrow> single_line s"
  shows "single_line text"
proof (cases rule: handleApiError_cases [of e rt])
  case (response m)
  then have "copied_values e = [opt_get (get_prop e ''response'') ''status'', m]"
    by (simp add: copied_values_def)
  with assms(2) have "\<forall>s. js_String rt (opt_get (get_prop e ''response'') ''status'') = Inr s \<longrightarrow> single_line s"
    and "\<forall>s. js_String rt m = Inr s \<longrightarrow> single_line s"
    by simp_all
  then show ?thesis
    using response(4) assms(1) response_text_single_line by simp
next
  case timeout
  then show ?thesis using assms(1) single_line_fixed(12) by simp
next
  case refused
  then show ?thesis using assms(1) single_line_fixed(13) by simp
next
  case unexpected
  then show ?thesis
    using assms unexpected_text_single_line by simp
qed


lemma handleApiError_status_response:
  assumes "response_message d = Inr m"
  shows "handleApiError rt (AxiosError msg code (axios_response st d)) = response_text rt (JNum st) m"
  using assms
  by (simp add: handleApiError_def AxiosError_def isAxiosError_def get_prop_def
        axios_response_def truthy_def opt_get_def)

lemma show_int_digits:
  "show_int 400 = ''400''" "show_int 503 = ''503''"
  by (simp_all add: show_int_def show_nat.simps digit_char_def)

text \<open>
  The messages of the classifier where it does return: the statuses 401, 404 and 429,
  a status from 500 on with the status in the text, a timeout, and a thrown string.
\<close>

lemma handleApiError_messages:
  "handleApiError rt (AxiosError msg code (axios_response 401 d))
     = Inr ''Error: Authentication failed. Check your CHORUS_API_KEY environment variable. Generate a token from Chorus Personal Settings.''"
  "handleApiError rt (AxiosError msg code (axios_response 404 d))
     = Inr ''Error: Resource not found. Verify the ID is correct and that you have access to this resource.''"
  "handleApiError rt (AxiosError msg code (axios_response 429 d))
     = Inr ''Error: Rate limit exceeded. Wait a moment before making more requests.''"
  "500 \<le> st \<Longrightarrow> st \<le> 2 ^ 53 \<Longrightarrow>
     handleApiError rt (AxiosError msg code (axios_response st d))
       = Inr (''Error: Chorus API server error ('' @ show_int st @ ''). Try again later.'')"
  "handleApiError rt (AxiosError msg (JStr ''ECONNABORTED'') JUndefined)
     = Inr ''Error: Request timed out. The Chorus API did not respond within 30 seconds. Try again.''"
  "handleApiError rt (Thrown (JStr s)) = Inr (''Error: Unexpected error occurred: '' @ s)"
proof -
  obtain m where m: "response_message d = Inr m"
    using response_message_total by blast
  show "handleApiError rt (AxiosError msg code (axios_response 401 d))
     = Inr ''Error: Authentication failed. Check your CHORUS_API_KEY environment variable. Generate a token from Chorus Personal Settings.''"
    by (simp add: handleApiError_status_response [OF m] response_text_def)
  show "handleApiError rt (AxiosError msg code (axios_response 404 d))
     = Inr ''Error: Resource not found. Verify the ID is correct and that you have access to this resource.''"
    by (simp add: handleApiError_status_response [OF m] response_text_def)
  show "handleApiError rt (AxiosError msg code (axios_response 429 d))
     = Inr ''Error: Rate limit exceeded. Wait a moment before making more requests.''"
    by (simp add: handleApiError_status_response [OF m] response_text_def)
  show "handleApiError rt (AxiosError msg code (axios_response st d))
       = Inr (''Error: Chorus API server error ('' @ show_int st @ ''). Try again later.'')"
    if "500 \<le> st" and "st \<le> 2 ^ 53"
    using that by (simp add: handleApiError_status_response [OF m] response_text_def at_least_500_def)
  show "handleApiError rt (AxiosError msg (JStr ''ECONNABORTED'') JUndefined)
     = Inr ''Error: Request timed out. The Chorus API did not respond within 30 seconds. Try again.''"
    by (simp add: handleApiError_def AxiosError_def isAxiosError_def get_prop_def truthy_def)
  show "handleApiError rt (Thrown (JStr s)) = Inr (''Error: Unexpected error occurred: '' @ s)"
    by (simp add: handleApiError_def isAxiosError_def typeof_object_def unexpected_text_def)
qed

text \<open>
  Claim C3. The claim: the classifier is total and never raises, whatever it is given.
  The code breaks it. An upstream body whose \<open>message\<close> is an object with a property
  named \<open>toString\<close> reaches \<open>String(message)\<close> in the branch of status 400, and the
  conversion raises a TypeError out of the handler. The mappings of the claim hold
  where the classifier returns (the lemma above).
\<close>

theorem handleApiError_raises_TypeError:
  "handleApiError rt
     (AxiosError ''Request failed with status code 400'' (JStr ''ERR_BAD_REQUEST'')
        (axios_response 400 (JObj [(''message'', JObj [(''toString'', JNum 1)])])))
     = Inl TypeError"
proof -
  have "response_message (JObj [(''message'', JObj [(''toString'', JNum 1)])])
          = Inr (JObj [(''toString'', JNum 1)])"
    by (simp add: response_message_def typeof_object_def js_get_def)
  then show ?thesis
    by (simp add: handleApiError_status_response response_text_def optional_String_def truthy_def)
qed

text \<open>
  Claim C9, as stated, fails: the message of the upstream response is copied into the
  result as it is, so a message of two lines gives a result of two lines.
\<close>

theorem handleApiError_multi_line:
  "\<forall>rt. handleApiError rt
     (AxiosError ''Request failed with status code 400'' (JStr ''ERR_BAD_REQUEST'')
        (axios_response 400
           (JObj [(''message'', JStr (''bad date'' @ [CHR 0x0A] @ ''use ISO 8601''))])))
     = Inr (''Error: Bad request. bad date'' @ [CHR 0x0A] @ ''use ISO 8601'')
   \<and> \<not> single_line (''Error: Bad request. bad date'' @ [CHR 0x0A] @ ''use ISO 8601'')"
proof -
  have "response_message (JObj [(''message'', JStr (''bad date'' @ [CHR 0x0A] @ ''use ISO 8601''))])
          = Inr (JStr (''bad date'' @ [CHR 0x0A] @ ''use ISO 8601''))"
    by (simp add: response_message_def typeof_object_def js_get_def)
  then show ?thesis
    by (simp add: handleApiError_status_response response_text_def optional_String_def truthy_def
          single_line_def)
qed

lemma single_line_fixed_status:
  assumes "isAxiosError e" and "truthy (get_prop e ''response'')"
    and "opt_get (get_prop e ''response'') ''status'' = JNum st"
    and "st \<in> {401, 403, 404, 429} \<or> 500 \<le> st \<and> st \<le> 2 ^ 53"
  shows "returns_single_line (handleApiError rt e)"
proof -
  obtain m where "response_message (opt_get (get_prop e ''response'') ''data'') = Inr m"
    using response_message_total by blast
  with assms(1,2,3) have eq: "handleApiError rt e = response_text rt (JNum st) m"
    by (simp add: handleApiError_def)
  consider "st = 401" | "st = 403" | "st = 404" | "st = 429" | "500 \<le> st" "st \<le> 2 ^ 53"
    using assms(4) by auto
  then show ?thesis
  proof cases
    case 5
    then have "response_text rt (JNum st) m
                 = Inr (''Error: Chorus API server error ('' @ show_int st @ ''). Try again later.'')"
      by (simp add: response_text_def at_least_500_def)
    then show ?thesis
      unfolding eq returns_single_line_def
      using single_line_show_int [of st] by (simp add: single_line_def)
  qed (simp_all add: eq response_text_def returns_single_line_def single_line_def)
qed

lemma single_line_no_response:
  assumes "isAxiosError e" and "\<not> truthy (get_prop e ''response'')"
    and "get_prop e ''code'' \<in> {JStr ''ECONNABORTED'', JStr ''ECONNREFUSED''}"
  shows "returns_single_line (handleApiError rt e)"
  using assms by (auto simp: handleApiError_def returns_single_line_def single_line_def)

text \<open>
  Claim C9, amended. Whenever the classifier returns a text, the text begins with
  \<open>Error: \<close>, and it does return for every input whose copied values (the status and
  the upstream message of a response, otherwise the message of the error or the thrown
  value) can be converted to strings. The text is a single line whenever the texts of
  the copied values are; and it is one, whatever the message, for the statuses 401,
  403, 404 and 429, for a status from 500 on, for a timeout and for a refused
  connection.
\<close>

theorem handleApiError_error_prefix:
  "(handleApiError rt e = Inr text \<longrightarrow> (\<exists>rest. text = ''Error: '' @ rest))
   \<and> ((\<forall>v \<in> set (copied_values e). \<exists>s. js_String rt v = Inr s) \<longrightarrow>
        (\<exists>t. handleApiError rt e = Inr t))
   \<and> (handleApiError rt e = Inr text
        \<and> (\<forall>v \<in> set (copied_values e). \<forall>s. js_String rt v = Inr s \<longrightarrow> single_line s) \<longrightarrow>
        single_line text)
   \<and> (isAxiosError e1 \<and> truthy (get_prop e1 ''response'')
        \<and> opt_get (get_prop e1 ''response'') ''status'' = JNum st
        \<and> (st \<in> {401, 403, 404, 429} \<or> 500 \<le> st \<and> st \<le> 2 ^ 53) \<longrightarrow>
        returns_single_line (handleApiError rt e1))
   \<and> (isAxiosError e2 \<and> \<not> truthy (get_prop e2 ''response'')
        \<and> get_prop e2 ''code'' \<in> {JStr ''ECONNABORTED'', JStr ''ECONNREFUSED''} \<longrightarrow>
        returns_single_line (handleApiError rt e2))"
  using handleApiError_prefix [of rt e "text"] handleApiError_returns [of e rt]
    handleApiError_single_line [of rt e "text"] single_line_fixed_status [of e1 st rt]
    single_line_no_response [of e2 rt]
  by blast

text \<open>
  A response of status 400 with a message of one line, a response of status 503 and a
  timeout.
\<close>

theorem handleApiError_error_prefix_witness:
  "\<forall>rt.
     handleApiError rt
       (AxiosError ''Request failed with status code 400'' (JStr ''ERR_BAD_REQUEST'')
          (axios_response 400 (JObj [(''message'', JStr ''Invalid date format'')])))
       = Inr ''Error: Bad request. Invalid date format''
     \<and> copied_values
         (AxiosError ''Request failed with status code 400'' (JStr ''ERR_BAD_REQUEST'')
            (axios_response 400 (JObj [(''message'', JStr ''Invalid date format'')])))
       = [JNum 400, JStr ''Invalid date format'']
     \<and> js_String rt (JNum 400) = Inr ''400''
     \<and> js_String rt (JStr ''Invalid date format'') = Inr ''Invalid date format''
     \<and> single_line ''400''
     \<and> single_line ''Invalid date format''
     \<and> single_line ''Error: Bad request. Invalid date format''
     \<and> isAxiosError
         (AxiosError ''Request failed with status code 503'' (JStr ''ERR_BAD_RESPONSE'')
            (axios_response 503 (JObj [])))
     \<and> opt_get
         (get_prop
            (AxiosError ''Request failed with status code 503'' (JStr ''ERR_BAD_RESPONSE'')
               (axios_response 503 (JObj []))) ''response'') ''status''
       = JNum 503
     \<and> returns_single_line
         (handleApiError rt
            (AxiosError ''Request failed with status code 503'' (JStr ''ERR_BAD_RESPONSE'')
               (axios_response 503 (JObj []))))
     \<and> isAxiosError (AxiosError ''timeout'' (JStr ''ECONNABORTED'') JUndefined)
     \<and> get_prop (AxiosError ''timeout'' (JStr ''ECONNABORTED'') JUndefined) ''code''
       = JStr ''ECONNABORTED''
     \<and> returns_single_line
         (handleApiError rt (AxiosError ''timeout'' (JStr ''ECONNABORTED'') JUndefined))"
proof
  fix rt
  let ?e = "AxiosError ''Request failed with status code 400'' (JStr ''ERR_BAD_REQUEST'')
              (axios_response 400 (JObj [(''message'', JStr ''Invalid date format'')]))"
  let ?e1 = "AxiosError ''Request failed with status code 503'' (JStr ''ERR_BAD_RESPONSE'')
               (axios_response 503 (JObj []))"
  let ?e2 = "AxiosError ''timeout'' (JStr ''ECONNABORTED'') JUndefined"
  have msg: "response_message (JObj [(''message'', JStr ''Invalid date format'')])
               = Inr (JStr ''Invalid date format'')"
    by (simp add: response_message_def typeof_object_def js_get_def)
  have out: "handleApiError rt ?e = Inr ''Error: Bad request. Invalid date format''"
    by (simp add: handleApiError_status_response [OF msg] response_text_def optional_String_def
          truthy_def)
  have copied: "copied_values ?e = [JNum 400, JStr ''Invalid date format'']"
    by (simp add: copied_values_def AxiosError_def axios_response_def isAxiosError_def
          get_prop_def truthy_def opt_get_def msg)
  have texts: "js_String rt (JNum 400) = Inr ''400''"
    "js_String rt (JStr ''Invalid date format'') = Inr ''Invalid date format''"
    by (simp_all add: show_int_digits)
  have lines: "single_line ''400''" "single_line ''Invalid date format''"
    by (simp_all add: single_line_def)
  have e1: "isAxiosError ?e1" "truthy (get_prop ?e1 ''response'')"
    "opt_get (get_prop ?e1 ''response'') ''status'' = JNum 503"
    by (simp_all add: AxiosError_def axios_response_def isAxiosError_def get_prop_def
          truthy_def opt_get_def)
  have e2: "isAxiosError ?e2" "\<not> truthy (get_prop ?e2 ''response'')"
    "get_prop ?e2 ''code'' = JStr ''ECONNABORTED''"
    by (simp_all add: AxiosError_def isAxiosError_def get_prop_def truthy_def)
  note main = handleApiError_error_prefix
    [of rt ?e "''Error: Bad request. Invalid date format''" ?e1 503 ?e2]
  have "single_line ''Error: Bad request. Invalid date format''"
    using main out copied texts lines by simp
  moreover have "returns_single_line (handleApiError rt ?e1)"
    using main e1 by simp
  moreover have "returns_single_line (handleApiError rt ?e2)"
    using main e2 by simp
  ultimately show
    "handleApiError rt ?e = Inr ''Error: Bad request. Invalid date format''
     \<and> copied_values ?e = [JNum 400, JStr ''Invalid date format'']
     \<and> js_String rt (JNum 400) = Inr ''400''
     \<and> js_String rt (JStr ''Invalid date format'') = Inr ''Invalid date format''
     \<and> single_line ''400''
     \<and> single_line ''Invalid date format''
     \<and> single_line ''Error: Bad request. Invalid date format''
     \<and> isAxiosError ?e1
     \<and> opt_get (get_prop ?e1 ''response'') ''status'' = JNum 503
     \<and> returns_single_line (handleApiError rt ?e1)
     \<and> isAxiosError ?e2
     \<and> get_prop ?e2 ''code'' = JStr ''ECONNABORTED''
     \<and> returns_single_line (handleApiError rt ?e2)"
    using out copied texts lines e1 e2 by blast
qed

end
